theory Spec2Isabelle
  imports Main
begin

section \<open>The socket controller of the pusher (IoSocketController)\<close>

text \<open>
  The controller registers two websocket endpoints on the HTTP application: the admin
  endpoint \<^verbatim>\<open>/admin/rooms\<close> (method \<^verbatim>\<open>adminRoomSocket\<close>) and the
  player endpoint \<^verbatim>\<open>/room\<close> (method \<^verbatim>\<open>ioConnection\<close>). Each handler is
  embedded as a function from its inputs to the list of calls it makes on its collaborators
  (the websocket, the response object, \<^verbatim>\<open>socketManager\<close>, the telemetry sink), in the
  order in which it makes them. The collaborators themselves (token manager, admin
  service, socket manager, the JID, JWT and uuid libraries) are not part of the controller;
  what they return or throw is an input of the handler that calls them.
\<close>

subsection \<open>Values shared by the handlers\<close>

text \<open>
  Payloads that the controller only copies (the body of an HTTP error, a companion
  texture, a chat room definition, an application definition) are JSON trees.
\<close>

datatype json =
    JNull
  | JBool bool
  | JNum int
  | JStr string
  | JArr "json list"
  | JObj "(string \<times> json) list"

text \<open>
  What a collaborator can throw. An Axios error carries the optional HTTP response
  (status, body) of the failed call; \<^verbatim>\<open>JsonWebTokenError\<close> and Axios errors are
  subclasses of \<^verbatim>\<open>Error\<close>; \<open>NonError\<close> is any thrown value that is not an
  \<^verbatim>\<open>Error\<close> instance.
\<close>

record axiosResponse =
  r_status :: "nat option"
  r_data :: "json option"

datatype thrown =
    JsonWebTokenError string
  | PlainError string
  | AxiosError string "axiosResponse option"
  | NonError json

fun instanceofError :: "thrown \<Rightarrow> bool" where
  "instanceofError (NonError _) = False"
| "instanceofError _ = True"

fun instanceofJsonWebTokenError :: "thrown \<Rightarrow> bool" where
  "instanceofJsonWebTokenError (JsonWebTokenError _) = True"
| "instanceofJsonWebTokenError _ = False"

fun isAxiosError :: "thrown \<Rightarrow> bool" where
  "isAxiosError (AxiosError _ _) = True"
| "isAxiosError _ = False"

fun message_of :: "thrown \<Rightarrow> string" where
  "message_of (JsonWebTokenError m) = m"
| "message_of (PlainError m) = m"
| "message_of (AxiosError m _) = m"
| "message_of (NonError _) = []"

text \<open>JavaScript truthiness of an optional string: absent and empty are both falsy.\<close>

fun truthy :: "string option \<Rightarrow> bool" where
  "truthy None = False"
| "truthy (Some s) = (s \<noteq> [])"

subsection \<open>The admin endpoint: \<^verbatim>\<open>adminRoomSocket\<close>, handler \<^verbatim>\<open>message\<close>\<close>

text \<open>
  An admin frame is JSON text. \<^verbatim>\<open>JSON.parse\<close> throws on text that is not JSON; the
  schema \<^verbatim>\<open>isAdminMessageInterface\<close> rejects JSON of another shape; an accepted
  message is a listen request or a user message, each with its token.
\<close>

datatype userMessageType = Ban | Banned

record userMessageAdminMessage =
  um_type :: userMessageType
  um_message :: string
  um_userUuid :: string

datatype adminMessageInterface =
    ListenMessage (jwt: string) (roomIds: "string list")
  | UserMessage (jwt: string) (world: string) (message: userMessageAdminMessage)

datatype adminFrame =
    NotJson thrown
  | InvalidMessage json
  | ValidMessage adminMessageInterface

text \<open>
  The calls the admin handlers make. \<open>Capture\<close> is one call of
  \<^verbatim>\<open>Sentry.captureException\<close> (the console line printed beside it is not modelled),
  with what it captures; the last two captures are those of the upgrade handler below.
  \<open>SendError m\<close> is \<^verbatim>\<open>ws.send\<close> of the frame
  \<^verbatim>\<open>{type: "Error", data: {message: m}}\<close>; \<open>End c r\<close> is \<^verbatim>\<open>ws.end(c, r)\<close>.
  The promises returned by \<^verbatim>\<open>socketManager\<close> are not awaited: a later rejection
  is only reported, and is not part of the handler's own trace.
\<close>

datatype capture =
    InvalidMessageIssues json
  | InvalidMessageReceived json
  | AccessRefusedForToken string thrown
  | CaptureText string
  | CaptureThrown thrown
  | AxiosErrorOnRoomConnection "nat option" json
  | UnknownErrorOnRoomConnection thrown

datatype adminCall =
    Capture capture
  | SendError string
  | End nat string
  | HandleAdminRoom string
  | EmitBan string string userMessageType string
  | EmitSendUserMessage string string userMessageType string

record adminEnv =
  verifyAdminSocketToken :: "string \<Rightarrow> thrown + string list"
  JSON_stringify :: "string list \<Rightarrow> string"

text \<open>\<^verbatim>\<open>s.split("/")\<close>: the pieces between the separators, an empty string
  giving one empty piece.\<close>

fun split_on :: "char \<Rightarrow> string \<Rightarrow> string list" where
  "split_on c [] = [[]]"
| "split_on c (x # xs) =
     (if x = c then [] # split_on c xs
      else (case split_on c xs of
              [] \<Rightarrow> [[x]]
            | p # ps \<Rightarrow> (x # p) # ps))"

text \<open>\<^verbatim>\<open>xs[i]\<close>, which is \<^verbatim>\<open>undefined\<close> out of range.\<close>

fun at_index :: "'a list \<Rightarrow> nat \<Rightarrow> 'a option" where
  "at_index [] i = None"
| "at_index (x # xs) 0 = Some x"
| "at_index (x # xs) (Suc i) = at_index xs i"

definition refusedListenMessage :: "adminEnv \<Rightarrow> string \<Rightarrow> string list \<Rightarrow> string" where
  "refusedListenMessage env remoteAddress notAuthorizedRoom =
     ''Admin socket refused for client on '' @ remoteAddress @ '' listening of : '' @
     [CHR 0x0A] @ JSON_stringify env notAuthorizedRoom"

fun emitUserMessage :: "userMessageAdminMessage \<Rightarrow> string \<Rightarrow> adminCall list" where
  "emitUserMessage messageToEmit roomId =
     (case um_type messageToEmit of
        Banned \<Rightarrow>
          [EmitBan (um_userUuid messageToEmit) (um_message messageToEmit)
             (um_type messageToEmit) roomId]
      | Ban \<Rightarrow>
          [EmitSendUserMessage (um_userUuid messageToEmit) (um_message messageToEmit)
             (um_type messageToEmit) roomId])"

text \<open>The handler after the frame was decoded and its token verified (lines 177 to 237).\<close>

fun adminDispatch :: "adminEnv \<Rightarrow> string \<Rightarrow> string list \<Rightarrow> adminMessageInterface \<Rightarrow> adminCall list" where
  "adminDispatch env remoteAddress authorizedRoomIds (ListenMessage token rooms) =
     (let notAuthorizedRoom = filter (\<lambda>roomId. roomId \<notin> set authorizedRoomIds) rooms
      in if length notAuthorizedRoom > 0 then
           (let errorMessage = refusedListenMessage env remoteAddress notAuthorizedRoom
            in [Capture (CaptureText errorMessage), SendError errorMessage,
                End 1008 ''Access refused''])
         else map HandleAdminRoom rooms)"
| "adminDispatch env remoteAddress authorizedRoomIds (UserMessage token w messageToEmit) =
     (let rooms = filter (\<lambda>authorizeRoomId.
                     at_index (split_on (CHR ''/'') authorizeRoomId) 5 = Some w)
                   authorizedRoomIds
      in concat (map (emitUserMessage messageToEmit) rooms))"

fun adminRoomSocket_message :: "adminEnv \<Rightarrow> string \<Rightarrow> adminFrame \<Rightarrow> adminCall list" where
  "adminRoomSocket_message env remoteAddress (NotJson err) = [Capture (CaptureThrown err)]"
| "adminRoomSocket_message env remoteAddress (InvalidMessage m) =
     [Capture (InvalidMessageIssues m), Capture (InvalidMessageReceived m),
      SendError ''Invalid message received! The connection has been closed.'',
      End 1007 ''Invalid message received!'']"
| "adminRoomSocket_message env remoteAddress (ValidMessage m) =
     (case verifyAdminSocketToken env (jwt m) of
        Inl e \<Rightarrow>
          [Capture (AccessRefusedForToken (jwt m) e),
           SendError ''Admin socket access refused! The connection has been closed.'',
           End 1008 ''Access refused'']
      | Inr authorizedRoomIds \<Rightarrow> adminDispatch env remoteAddress authorizedRoomIds m)"

subsection \<open>The player endpoint: \<^verbatim>\<open>ioConnection\<close>, handler \<^verbatim>\<open>close\<close>\<close>

text \<open>
  The fields of \<^verbatim>\<open>ExSocketInterface\<close> that the handler reads or writes. A timer
  handle is a \<^verbatim>\<open>NodeJS.Timeout\<close> object (truthy whenever it is there), named here
  by a number.
\<close>

record exSocket =
  disconnecting :: bool
  pingIntervalId :: "nat option"
  pongTimeoutId :: "nat option"

datatype closeCall =
    LeaveRoom
  | LeaveSpaces
  | CaptureDisconnect thrown
  | ClearInterval nat
  | ClearTimeout nat

text \<open>
  \<^verbatim>\<open>socketManager.leaveRoom\<close> and \<^verbatim>\<open>socketManager.leaveSpaces\<close> are called
  in this order inside one \<^verbatim>\<open>try\<close> block; each either returns or throws
  (\<open>Some e\<close>). The block yields the calls that were started and the exception that
  left it, if any.
\<close>

definition close_try :: "thrown option \<Rightarrow> thrown option \<Rightarrow> closeCall list \<times> thrown option" where
  "close_try leaveRoomThrows leaveSpacesThrows =
     (case leaveRoomThrows of
        Some e \<Rightarrow> ([LeaveRoom], Some e)
      | None \<Rightarrow>
          (case leaveSpacesThrows of
             Some e \<Rightarrow> ([LeaveRoom, LeaveSpaces], Some e)
           | None \<Rightarrow> ([LeaveRoom, LeaveSpaces], None)))"

definition close_catch :: "thrown option \<Rightarrow> closeCall list" where
  "close_catch caught = (case caught of Some e \<Rightarrow> [CaptureDisconnect e] | None \<Rightarrow> [])"

definition close_finally :: "exSocket \<Rightarrow> closeCall list" where
  "close_finally client =
     (case pingIntervalId client of Some t \<Rightarrow> [ClearInterval t] | None \<Rightarrow> []) @
     (case pongTimeoutId client of Some t \<Rightarrow> [ClearTimeout t] | None \<Rightarrow> [])"

definition ioConnection_close :: "thrown option \<Rightarrow> thrown option \<Rightarrow> exSocket \<Rightarrow> closeCall list \<times> exSocket" where
  "ioConnection_close leaveRoomThrows leaveSpacesThrows ws =
     (let client = ws\<lparr>disconnecting := True\<rparr>;
          (calls, caught) = close_try leaveRoomThrows leaveSpacesThrows
      in (calls @ close_catch caught @ close_finally client, client))"

subsection \<open>The player endpoint: what \<^verbatim>\<open>upgrade\<close> hands to \<^verbatim>\<open>open\<close>\<close>

text \<open>
  The query of the upgrade request, as the schema of lines 277 to 292 validates it.
  \<^verbatim>\<open>characterTextureIds\<close> is a string or an array of strings. The coerced
  numbers (position, viewport, availability status) are only copied, so their type is a
  parameter.
\<close>

datatype characterTextureIdsQuery = OneString string | StringArray "string list"

record 'n websocketQuery =
  q_roomId :: string
  q_token :: "string option"
  q_name :: string
  q_characterTextureIds :: characterTextureIdsQuery
  q_x :: 'n
  q_y :: 'n
  q_top :: 'n
  q_bottom :: 'n
  q_left :: 'n
  q_right :: 'n
  q_companionTextureId :: "string option"
  q_availabilityStatus :: 'n
  q_lastCommandId :: "string option"
  q_version :: string

text \<open>
  The request: the outcome of \<^verbatim>\<open>validateWebsocketQuery\<close> (\<open>None\<close> is
  \<^verbatim>\<open>undefined\<close>) and the two headers the handler reads for itself. The three
  websocket headers and the context are passed unchanged to every
  \<^verbatim>\<open>res.upgrade\<close> and are left out.
\<close>

record 'n upgradeRequest =
  rq_query :: "'n websocketQuery option"
  rq_IPAddress :: string
  rq_locale :: string

record authTokenData =
  t_identifier :: string
  t_accessToken :: "string option"

text \<open>
  \<^verbatim>\<open>WokaDetail\<close> and \<^verbatim>\<open>FetchMemberDataByUuidResponse\<close> are declared
  outside the controller; these are the fields it reads.
\<close>

record wokaDetail =
  w_id :: string
  w_url :: "string option"

record memberData =
  m_userUuid :: string
  m_tags :: "string list"
  m_visitCardUrl :: "string option"
  m_characterTextures :: "wokaDetail list"
  m_companionTexture :: "json option"
  m_userRoomToken :: "string option"
  m_jabberId :: "string option"
  m_jabberPassword :: "string option"
  m_mucRooms :: "json list option"
  m_activatedInviteUser :: "bool option"
  m_canEdit :: "bool option"
  m_applications :: "json list option"

record 'n pointInterface =
  p_x :: 'n
  p_y :: 'n
  p_direction :: string
  p_moving :: bool

record 'n viewportInterface =
  v_top :: 'n
  v_right :: 'n
  v_bottom :: 'n
  v_left :: 'n

record 'n spaceUser =
  su_id :: nat
  su_uuid :: string
  su_name :: string
  su_playUri :: string
  su_roomName :: string
  su_availabilityStatus :: 'n
  su_isLogged :: bool
  su_color :: "string option"
  su_tags :: "string list"
  su_cameraState :: bool
  su_screenSharing :: bool
  su_microphoneState :: bool
  su_megaphoneState :: bool
  su_characterTextures :: "wokaDetail list"
  su_visitCardUrl :: "string option"

text \<open>The type \<^verbatim>\<open>UpgradeData\<close> (lines 50 to 83): the seed of a session.\<close>

record 'n upgradeData =
  u_token :: string
  u_userUuid :: string
  u_userJid :: string
  u_IPAddress :: string
  u_userIdentifier :: string
  u_roomId :: string
  u_name :: string
  u_companionTexture :: "json option"
  u_availabilityStatus :: 'n
  u_lastCommandId :: "string option"
  u_characterTextures :: "wokaDetail list"
  u_tags :: "string list"
  u_visitCardUrl :: "string option"
  u_userRoomToken :: "string option"
  u_jabberId :: string
  u_jabberPassword :: "string option"
  u_mucRooms :: "json list option"
  u_activatedInviteUser :: "bool option"
  u_canEdit :: bool
  u_applications :: "json list option"
  u_position :: "'n pointInterface"
  u_viewport :: "'n viewportInterface"
  u_isLogged :: bool
  u_messages :: "json list"
  u_spaceUser :: "'n spaceUser"

text \<open>
  The type \<^verbatim>\<open>UpgradeFailedData\<close> (lines 85 to 106), a union of three shapes. The
  reason of the first shape is \<^verbatim>\<open>"tokenInvalid"\<close>, \<^verbatim>\<open>"invalidVersion"\<close>
  or \<^verbatim>\<open>null\<close>; the reasons \<^verbatim>\<open>"error"\<close> and \<^verbatim>\<open>"invalidTexture"\<close>
  are those of the second and third shape. A message is the text of an exception or the
  body of an HTTP error.
\<close>

datatype invalidReason = tokenInvalid | invalidVersion

datatype entityType = character | companion

datatype upgradeFailedData =
    UpgradeFailedInvalidData "invalidReason option" "json option" nat string
  | UpgradeFailedErrorData nat json
  | UpgradeFailedInvalidTexture entityType

datatype 'n userData = Accepted "'n upgradeData" | Rejected upgradeFailedData

text \<open>The reason field, as a string or \<open>None\<close> for \<^verbatim>\<open>null\<close>.\<close>

fun reason_of :: "upgradeFailedData \<Rightarrow> string option" where
  "reason_of (UpgradeFailedInvalidData None _ _ _) = None"
| "reason_of (UpgradeFailedInvalidData (Some tokenInvalid) _ _ _) = Some ''tokenInvalid''"
| "reason_of (UpgradeFailedInvalidData (Some invalidVersion) _ _ _) = Some ''invalidVersion''"
| "reason_of (UpgradeFailedErrorData _ _) = Some ''error''"
| "reason_of (UpgradeFailedInvalidTexture _) = Some ''invalidTexture''"

fun status_of :: "upgradeFailedData \<Rightarrow> nat option" where
  "status_of (UpgradeFailedInvalidData _ _ s _) = Some s"
| "status_of (UpgradeFailedErrorData s _) = Some s"
| "status_of (UpgradeFailedInvalidTexture _) = None"

subsection \<open>The player endpoint: \<^verbatim>\<open>ioConnection\<close>, handler \<^verbatim>\<open>upgrade\<close>\<close>

text \<open>
  The configuration and the collaborators of the handler. \<^verbatim>\<open>tokenInvalidException\<close>
  is a constant of the token manager, of the type of a reason. \<^verbatim>\<open>Jwt.sign\<close> takes
  the jid of the payload, the secret, \<^verbatim>\<open>expiresIn\<close> and the algorithm;
  \<^verbatim>\<open>JID.create\<close> takes local part, domain and resource.
\<close>

record env =
  apiVersionHash :: string
  DISABLE_ANONYMOUS :: bool
  EJABBERD_DOMAIN :: string
  EJABBERD_JWT_SECRET :: "string option"
  tokenInvalidException :: invalidReason
  verifyJWTToken :: "string \<Rightarrow> thrown + authTokenData"
  fetchMemberDataByUuid ::
    "string \<Rightarrow> string option \<Rightarrow> string \<Rightarrow> string \<Rightarrow> string list \<Rightarrow> string option \<Rightarrow> string
      \<Rightarrow> thrown + memberData"
  ErrorApiData_safeParse :: "json option \<Rightarrow> json option"
  JID_create :: "string \<Rightarrow> string \<Rightarrow> string \<Rightarrow> string"
  Jwt_sign :: "string \<Rightarrow> string \<Rightarrow> string \<Rightarrow> string \<Rightarrow> string"
  getColorByString :: "string \<Rightarrow> string option"

text \<open>
  What one run of the handler leaves behind: the exceptions captured for telemetry, in
  order, and the argument of the call of \<^verbatim>\<open>res.upgrade\<close>, if the run made one
  (no path makes two).
\<close>

type_synonym 'n upgradeOutcome = "capture list \<times> 'n userData option"

text \<open>The error payload of a version mismatch (lines 332 to 343).\<close>

definition newVersionError :: json where
  "newVersionError = JObj
     [(''type'', JStr ''retry''),
      (''title'', JStr ''Please refresh''),
      (''subtitle'', JStr ''New version available''),
      (''image'', JStr ''/resources/icons/new_version.png''),
      (''code'', JStr ''NEW_VERSION''),
      (''details'', JStr ''A new version of Qtune is available. Please refresh your window''),
      (''canRetryManual'', JBool True),
      (''buttonTitle'', JStr ''Refresh''),
      (''timeToRetry'', JNum 999999)]"

text \<open>Lines 352 to 355: a single string becomes the array holding it.\<close>

fun normalizeCharacterTextureIds :: "characterTextureIdsQuery \<Rightarrow> string list" where
  "normalizeCharacterTextureIds (OneString s) = [s]"
| "normalizeCharacterTextureIds (StringArray ids) = ids"

text \<open>Line 357: the token is verified only when it is there and not empty.\<close>

definition verifyOptionalToken :: "env \<Rightarrow> string option \<Rightarrow> thrown + authTokenData option" where
  "verifyOptionalToken env tok =
     (case tok of
        None \<Rightarrow> Inr None
      | Some t \<Rightarrow>
          (if t = [] then Inr None
           else (case verifyJWTToken env t of
                   Inl e \<Rightarrow> Inl e
                 | Inr tokenData \<Rightarrow> Inr (Some tokenData))))"

text \<open>\<^verbatim>\<open>err?.response?.status || 500\<close> and \<^verbatim>\<open>err?.response?.data\<close>.\<close>

definition statusOr500 :: "axiosResponse option \<Rightarrow> nat" where
  "statusOr500 response =
     (case response of
        None \<Rightarrow> 500
      | Some r \<Rightarrow> (case r_status r of None \<Rightarrow> 500 | Some s \<Rightarrow> if s = 0 then 500 else s))"

definition responseData :: "axiosResponse option \<Rightarrow> json option" where
  "responseData response = (case response of None \<Rightarrow> None | Some r \<Rightarrow> r_data r)"

text \<open>
  Lines 468 to 485: the chat identity and password of the session, from the member data,
  the identifier of the user and the uuid drawn for this connection. Without a jabberId
  in the member data (absent or empty) both are made here; otherwise the uuid is appended
  to the jabberId as its resource and the password stays as the lookup gave it.
\<close>

definition fabricatedCredentials :: "env \<Rightarrow> string \<Rightarrow> string \<Rightarrow> string \<times> string option" where
  "fabricatedCredentials env userIdentifier uuid =
     (let jabberId = JID_create env userIdentifier (EJABBERD_DOMAIN env) uuid
      in (jabberId,
          (case EJABBERD_JWT_SECRET env of
             None \<Rightarrow> Some ''no_password_set''
           | Some secret \<Rightarrow>
               if secret = [] then Some ''no_password_set''
               else Some (Jwt_sign env jabberId secret ''1d'' ''HS256''))))"

definition jabberCredentials :: "env \<Rightarrow> string \<Rightarrow> string \<Rightarrow> memberData \<Rightarrow> string \<times> string option" where
  "jabberCredentials env userIdentifier uuid userData =
     (case m_jabberId userData of
        None \<Rightarrow> fabricatedCredentials env userIdentifier uuid
      | Some jid \<Rightarrow>
          if jid = [] then fabricatedCredentials env userIdentifier uuid
          else (jid @ ''/'' @ uuid, m_jabberPassword userData))"

text \<open>Lines 521 to 579: the seed of the session.\<close>

definition responseData_of ::
  "env \<Rightarrow> 'n websocketQuery \<Rightarrow> string \<Rightarrow> string \<Rightarrow> bool \<Rightarrow> memberData \<Rightarrow> string \<times> string option
     \<Rightarrow> 'n upgradeData" where
  "responseData_of env q IPAddress userIdentifier isLogged userData jabber =
     \<lparr>u_token = (case q_token q of None \<Rightarrow> [] | Some t \<Rightarrow> t),
      u_userUuid = m_userUuid userData,
      u_userJid = fst jabber,
      u_IPAddress = IPAddress,
      u_userIdentifier = userIdentifier,
      u_roomId = q_roomId q,
      u_name = q_name q,
      u_companionTexture = m_companionTexture userData,
      u_availabilityStatus = q_availabilityStatus q,
      u_lastCommandId = q_lastCommandId q,
      u_characterTextures = m_characterTextures userData,
      u_tags = m_tags userData,
      u_visitCardUrl = m_visitCardUrl userData,
      u_userRoomToken = m_userRoomToken userData,
      u_jabberId = fst jabber,
      u_jabberPassword = snd jabber,
      u_mucRooms = m_mucRooms userData,
      u_activatedInviteUser =
        (case m_activatedInviteUser userData of Some True \<Rightarrow> Some True | _ \<Rightarrow> None),
      u_canEdit = (case m_canEdit userData of None \<Rightarrow> False | Some b \<Rightarrow> b),
      u_applications = m_applications userData,
      u_position = \<lparr>p_x = q_x q, p_y = q_y q, p_direction = ''down'', p_moving = False\<rparr>,
      u_viewport =
        \<lparr>v_top = q_top q, v_right = q_right q, v_bottom = q_bottom q, v_left = q_left q\<rparr>,
      u_isLogged = isLogged,
      u_messages = [],
      u_spaceUser =
        \<lparr>su_id = 0,
         su_uuid = m_userUuid userData,
         su_name = q_name q,
         su_playUri = q_roomId q,
         su_roomName = [],
         su_availabilityStatus = q_availabilityStatus q,
         su_isLogged = isLogged,
         su_color = getColorByString env (q_name q),
         su_tags = m_tags userData,
         su_cameraState = False,
         su_screenSharing = False,
         su_microphoneState = False,
         su_megaphoneState = False,
         su_characterTextures =
           map (\<lambda>characterTexture.
                  \<lparr>w_id = w_id characterTexture, w_url = w_url characterTexture\<rparr>)
               (m_characterTextures userData),
         su_visitCardUrl = m_visitCardUrl userData\<rparr>\<rparr>"

text \<open>
  Lines 468 to 589, run once the lookup has returned member data: the credentials, the
  check of the abort flag, the two texture checks, and the accepting call.
\<close>

definition upgrade_withMemberData ::
  "env \<Rightarrow> 'n websocketQuery \<Rightarrow> string \<Rightarrow> string \<Rightarrow> string list \<Rightarrow> string \<Rightarrow> bool \<Rightarrow> bool
     \<Rightarrow> memberData \<Rightarrow> 'n userData option" where
  "upgrade_withMemberData env q IPAddress uuid characterTextureIds userIdentifier isLogged
     aborted userData =
     (let jabber = jabberCredentials env userIdentifier uuid userData
      in if aborted then None
         else if length characterTextureIds \<noteq> length (m_characterTextures userData) then
           Some (Rejected (UpgradeFailedInvalidTexture character))
         else if truthy (q_companionTextureId q) \<and> m_companionTexture userData = None then
           Some (Rejected (UpgradeFailedInvalidTexture companion))
         else
           Some (Accepted (responseData_of env q IPAddress userIdentifier isLogged userData
                             jabber)))"

text \<open>
  Lines 389 to 466: what the handler does with the outcome of the awaited lookup.
  \<open>aborted\<close> is the abort flag as it stands when the lookup has settled. An Axios error
  ends the run (with or without a rejection); any other exception is captured and
  replaced by a new \<^verbatim>\<open>Error\<close>, which leaves the \<^verbatim>\<open>try\<close> block.
\<close>

definition upgrade_afterLookup ::
  "env \<Rightarrow> 'n websocketQuery \<Rightarrow> string \<Rightarrow> string \<Rightarrow> string list \<Rightarrow> string \<Rightarrow> bool \<Rightarrow> bool
     \<Rightarrow> thrown + memberData \<Rightarrow> capture list \<times> (thrown + 'n userData option)" where
  "upgrade_afterLookup env q IPAddress uuid characterTextureIds userIdentifier isLogged
     aborted looked =
     (case looked of
        Inl (AxiosError m response) \<Rightarrow>
          (case ErrorApiData_safeParse env (responseData response) of
             Some errorType \<Rightarrow>
               if aborted then ([], Inr None)
               else ([AxiosErrorOnRoomConnection
                        (case response of None \<Rightarrow> None | Some r \<Rightarrow> r_status r) errorType],
                     Inr (Some (Rejected
                            (UpgradeFailedErrorData (statusOr500 response) errorType))))
           | None \<Rightarrow>
               ([UnknownErrorOnRoomConnection (AxiosError m response)],
                if aborted then Inr None
                else Inr (Some (Rejected
                       (UpgradeFailedInvalidData None (responseData response) 500
                          (q_roomId q))))))
      | Inl err \<Rightarrow> ([CaptureThrown err], Inl (PlainError ''User cannot access this world''))
      | Inr userData \<Rightarrow>
          ([], Inr (upgrade_withMemberData env q IPAddress uuid characterTextureIds
                      userIdentifier isLogged aborted userData)))"

text \<open>
  Lines 363, 364 and 391 to 399: the identifier and access token taken from the verified
  token (empty and absent without one), and the call of the lookup.
\<close>

definition userIdentifier_of :: "authTokenData option \<Rightarrow> string" where
  "userIdentifier_of tokenData = (case tokenData of None \<Rightarrow> [] | Some t \<Rightarrow> t_identifier t)"

definition accessToken_of :: "authTokenData option \<Rightarrow> string option" where
  "accessToken_of tokenData = (case tokenData of None \<Rightarrow> None | Some t \<Rightarrow> t_accessToken t)"

definition lookupMemberData ::
  "env \<Rightarrow> 'n websocketQuery \<Rightarrow> string \<Rightarrow> string \<Rightarrow> authTokenData option \<Rightarrow> thrown + memberData" where
  "lookupMemberData env q IPAddress locale tokenData =
     fetchMemberDataByUuid env (userIdentifier_of tokenData) (accessToken_of tokenData)
       (q_roomId q) IPAddress (normalizeCharacterTextureIds (q_characterTextureIds q))
       (q_companionTextureId q) locale"

text \<open>
  Lines 321 to 589, the body of the \<^verbatim>\<open>try\<close> block. The run is suspended once, at
  the \<^verbatim>\<open>await\<close> of the lookup: \<open>aborted\<close> is the abort flag before that point and
  \<open>clientGone\<close> tells whether the callback registered with \<^verbatim>\<open>res.onAborted\<close>
  ran during the suspension and set the flag. The result holds the abort flag at the
  moment the block is left, since the \<^verbatim>\<open>catch\<close> clause reads it.
\<close>

definition upgrade_try ::
  "env \<Rightarrow> 'n websocketQuery \<Rightarrow> string \<Rightarrow> string \<Rightarrow> string \<Rightarrow> bool \<Rightarrow> bool
     \<Rightarrow> bool \<times> capture list \<times> (thrown + 'n userData option)" where
  "upgrade_try env q IPAddress locale uuid aborted clientGone =
     (if q_version q \<noteq> apiVersionHash env then
        (aborted, [],
         Inr (if aborted then None
              else Some (Rejected (UpgradeFailedErrorData 419 newVersionError))))
      else
        (let characterTextureIds = normalizeCharacterTextureIds (q_characterTextureIds q)
         in case verifyOptionalToken env (q_token q) of
              Inl e \<Rightarrow> (aborted, [], Inl e)
            | Inr tokenData \<Rightarrow>
                if DISABLE_ANONYMOUS env \<and> tokenData = None then
                  (aborted, [], Inl (PlainError ''Expecting token''))
                else
                  (let userIdentifier = userIdentifier_of tokenData;
                       isLogged = truthy (accessToken_of tokenData);
                       looked = lookupMemberData env q IPAddress locale tokenData;
                       aborted' = (aborted \<or> clientGone)
                   in (aborted',
                       upgrade_afterLookup env q IPAddress uuid characterTextureIds
                         userIdentifier isLogged aborted' looked))))"

text \<open>Lines 590 to 632: the \<^verbatim>\<open>catch\<close> clause of that block.\<close>

definition upgrade_catch :: "env \<Rightarrow> 'n websocketQuery \<Rightarrow> bool \<Rightarrow> thrown \<Rightarrow> 'n upgradeOutcome" where
  "upgrade_catch env q aborted e =
     (if instanceofError e then
        ((if \<not> instanceofJsonWebTokenError e then [CaptureThrown e] else []),
         (if aborted then None
          else Some (Rejected
                 (UpgradeFailedInvalidData
                    (if instanceofJsonWebTokenError e then Some (tokenInvalidException env)
                     else None)
                    (Some (JStr (message_of e))) 401 (q_roomId q)))))
      else
        ([],
         (if aborted then None
          else Some (Rejected
                 (UpgradeFailedInvalidData None (Some (JStr ''500 Internal Server Error''))
                    500 (q_roomId q))))))"

text \<open>
  The handler from a given state of the abort flag, and the handler itself, which creates
  the flag unset (line 266). A request whose query did not validate ends the run at line
  296.
\<close>

definition upgrade_from ::
  "env \<Rightarrow> 'n upgradeRequest \<Rightarrow> string \<Rightarrow> bool \<Rightarrow> bool \<Rightarrow> 'n upgradeOutcome" where
  "upgrade_from env req uuid aborted clientGone =
     (case rq_query req of
        None \<Rightarrow> ([], None)
      | Some q \<Rightarrow>
          (case upgrade_try env q (rq_IPAddress req) (rq_locale req) uuid aborted clientGone of
             (aborted', captured, Inr called) \<Rightarrow> (captured, called)
           | (aborted', captured, Inl e) \<Rightarrow>
               (case upgrade_catch env q aborted' e of
                  (captured', called) \<Rightarrow> (captured @ captured', called))))"

definition ioConnection_upgrade :: "env \<Rightarrow> 'n upgradeRequest \<Rightarrow> string \<Rightarrow> bool \<Rightarrow> 'n upgradeOutcome" where
  "ioConnection_upgrade env req uuid clientGone = upgrade_from env req uuid False clientGone"

text \<open>
  The run reaches the lookup, with the token data \<open>tokenData\<close>, when the version is the
  server's, the token (if any) verifies, and an anonymous user is not refused.
\<close>

definition reachesLookup :: "env \<Rightarrow> 'n websocketQuery \<Rightarrow> authTokenData option \<Rightarrow> bool" where
  "reachesLookup env q tokenData =
     (q_version q = apiVersionHash env \<and>
      verifyOptionalToken env (q_token q) = Inr tokenData \<and>
      \<not> (DISABLE_ANONYMOUS env \<and> tokenData = None))"

subsection \<open>The player endpoint: \<^verbatim>\<open>ioConnection\<close>, handler \<^verbatim>\<open>open\<close>\<close>

text \<open>
  The calls of the handler. \<open>InitClient\<close> and \<open>HandleJoinRoom\<close> are the two calls
  that create the session of an accepted connection.
\<close>

datatype 'n openCall =
    DeleteRoomIfEmptyFromId string
  | EmitTokenExpiredMessage
  | EmitErrorScreenMessage json
  | EmitInvalidCharacterTextureMessage
  | EmitInvalidCompanionTextureMessage
  | EmitConnectionErrorMessage "json option"
  | WsEnd nat string
  | InitClient "'n upgradeData"
  | HandleJoinRoom
  | EmitXMPPSettings
  | SendUserMessage string string
  | CaptureOpen thrown

text \<open>Lines 643 to 661: the rejected branch.\<close>

fun open_rejected :: "env \<Rightarrow> upgradeFailedData \<Rightarrow> 'n openCall list" where
  "open_rejected env (UpgradeFailedInvalidData reason msg status roomId) =
     (if roomId \<noteq> [] then [DeleteRoomIfEmptyFromId roomId] else []) @
     [if reason = Some (tokenInvalidException env) then EmitTokenExpiredMessage
      else EmitConnectionErrorMessage msg,
      WsEnd 1000 ''Error message sent'']"
| "open_rejected env (UpgradeFailedErrorData status err) =
     [EmitErrorScreenMessage err, WsEnd 1000 ''Error message sent'']"
| "open_rejected env (UpgradeFailedInvalidTexture entity) =
     [case entity of
        character \<Rightarrow> EmitInvalidCharacterTextureMessage
      | companion \<Rightarrow> EmitInvalidCompanionTextureMessage,
      WsEnd 1000 ''Error message sent'']"

text \<open>
  Line 674: the schema \<^verbatim>\<open>{type: string, message: string}\<close> of a stored message.
\<close>

fun parseUserMessage :: "json \<Rightarrow> (string \<times> string) option" where
  "parseUserMessage (JObj members) =
     (case (map_of members ''type'', map_of members ''message'') of
        (Some (JStr t), Some (JStr m)) \<Rightarrow> Some (t, m)
      | _ \<Rightarrow> None)"
| "parseUserMessage _ = None"

text \<open>
  Lines 672 to 690: the stored messages are sent in order until one fails the schema,
  whose exception ends the loop; nothing is sent on a socket that is disconnecting.
\<close>

fun sendUserMessages :: "bool \<Rightarrow> json list \<Rightarrow> 'n openCall list" where
  "sendUserMessages disc [] = []"
| "sendUserMessages disc (c # cs) =
     (case parseUserMessage c of
        None \<Rightarrow> [CaptureOpen (PlainError ''ZodError'')]
      | Some (t, m) \<Rightarrow>
          (if disc then [] else [SendUserMessage t m]) @ sendUserMessages disc cs)"

text \<open>
  The handler. \<open>joinRoomThrows\<close> is the exception of the awaited
  \<^verbatim>\<open>handleJoinRoom\<close>, if it throws; \<open>disc\<close> is the flag
  \<^verbatim>\<open>client.disconnecting\<close> after that call.
\<close>

fun ioConnection_open :: "env \<Rightarrow> thrown option \<Rightarrow> bool \<Rightarrow> 'n userData \<Rightarrow> 'n openCall list" where
  "ioConnection_open env joinRoomThrows disc (Rejected failed) = open_rejected env failed"
| "ioConnection_open env joinRoomThrows disc (Accepted ws) =
     [InitClient ws, HandleJoinRoom] @
     (case joinRoomThrows of
        Some e \<Rightarrow> [CaptureOpen e]
      | None \<Rightarrow> EmitXMPPSettings # sendUserMessages disc (u_messages ws))"

text \<open>
  A connection: the upgrade, then \<^verbatim>\<open>open\<close> on the data the upgrade passed on,
  if it passed any.
\<close>

definition connect ::
  "env \<Rightarrow> 'n upgradeRequest \<Rightarrow> string \<Rightarrow> bool \<Rightarrow> thrown option \<Rightarrow> bool \<Rightarrow> 'n openCall list" where
  "connect env req uuid clientGone joinRoomThrows disc =
     (case snd (ioConnection_upgrade env req uuid clientGone) of
        None \<Rightarrow> []
      | Some ws \<Rightarrow> ioConnection_open env joinRoomThrows disc ws)"

fun createsSession :: "'n openCall \<Rightarrow> bool" where
  "createsSession (InitClient _) = True"
| "createsSession HandleJoinRoom = True"
| "createsSession _ = False"

text \<open>The close codes of a trace, and the member of a JSON object under a key.\<close>

fun closeCode :: "'n openCall \<Rightarrow> nat option" where
  "closeCode (WsEnd c r) = Some c"
| "closeCode _ = None"

definition closeCodes :: "'n openCall list \<Rightarrow> nat list" where
  "closeCodes calls = List.map_filter closeCode calls"

fun isErrorEmit :: "'n openCall \<Rightarrow> bool" where
  "isErrorEmit EmitTokenExpiredMessage = True"
| "isErrorEmit (EmitErrorScreenMessage _) = True"
| "isErrorEmit EmitInvalidCharacterTextureMessage = True"
| "isErrorEmit EmitInvalidCompanionTextureMessage = True"
| "isErrorEmit (EmitConnectionErrorMessage _) = True"
| "isErrorEmit _ = False"

fun jsonMember :: "json \<Rightarrow> string \<Rightarrow> json option" where
  "jsonMember (JObj members) k = map_of members k"
| "jsonMember _ k = None"

subsection \<open>A configuration to run the handlers on\<close>

text \<open>
  A server of version \<open>v2\<close> that accepts anonymous users and has a signing secret. Its
  token manager accepts the token \<open>good\<close>; its admin service answers with an HTTP
  error carrying a typed payload for the room \<open>typed\<close>, with an HTTP error carrying
  plain text for the room \<open>plain\<close>, and otherwise resolves every requested texture
  except the one called \<open>missing\<close>, and gives no chat identity.
\<close>

definition exampleMember :: "string list \<Rightarrow> string option \<Rightarrow> memberData" where
  "exampleMember ids companionId =
     \<lparr>m_userUuid = ''uuid-alice'',
      m_tags = [''member''],
      m_visitCardUrl = None,
      m_characterTextures =
        map (\<lambda>i. \<lparr>w_id = i, w_url = Some (''/textures/'' @ i)\<rparr>)
            (filter (\<lambda>i. i \<noteq> ''missing'') ids),
      m_companionTexture =
        (case companionId of
           None \<Rightarrow> None
         | Some c \<Rightarrow> if c = ''missing'' then None else Some (JStr c)),
      m_userRoomToken = None,
      m_jabberId = None,
      m_jabberPassword = None,
      m_mucRooms = Some [],
      m_activatedInviteUser = Some True,
      m_canEdit = None,
      m_applications = None\<rparr>"

definition exampleEnv :: env where
  "exampleEnv =
     \<lparr>apiVersionHash = ''v2'',
      DISABLE_ANONYMOUS = False,
      EJABBERD_DOMAIN = ''chat.example'',
      EJABBERD_JWT_SECRET = Some ''s3cret'',
      tokenInvalidException = tokenInvalid,
      verifyJWTToken =
        (\<lambda>t. if t = ''good''
              then Inr \<lparr>t_identifier = ''alice'', t_accessToken = Some ''access''\<rparr>
              else Inl (JsonWebTokenError ''jwt malformed'')),
      fetchMemberDataByUuid =
        (\<lambda>userIdentifier accessToken roomId IPAddress ids companionId locale.
           if roomId = ''typed'' then
             Inl (AxiosError ''Request failed with status code 403''
                    (Some \<lparr>r_status = Some 403,
                           r_data = Some (JObj [(''type'', JStr ''error''),
                                                (''code'', JStr ''ROOM_ACCESS_ERROR'')])\<rparr>))
           else if roomId = ''plain'' then
             Inl (AxiosError ''Request failed with status code 502''
                    (Some \<lparr>r_status = Some 502, r_data = Some (JStr ''Bad Gateway'')\<rparr>))
           else Inr (exampleMember ids companionId)),
      ErrorApiData_safeParse =
        (\<lambda>d. case d of Some (JObj members) \<Rightarrow> Some (JObj members) | _ \<Rightarrow> None),
      JID_create = (\<lambda>localPart domain resource. localPart @ ''@'' @ domain @ ''/'' @ resource),
      Jwt_sign = (\<lambda>jid secret expiresIn algorithm.
                    algorithm @ '':'' @ expiresIn @ '':'' @ jid),
      getColorByString = (\<lambda>name. None)\<rparr>"

definition exampleQuery :: "string \<Rightarrow> string option \<Rightarrow> string \<Rightarrow> int websocketQuery" where
  "exampleQuery roomId tok version =
     \<lparr>q_roomId = roomId,
      q_token = tok,
      q_name = ''Alice'',
      q_characterTextureIds = StringArray [''body'', ''hat''],
      q_x = 10, q_y = 20,
      q_top = 0, q_bottom = 600, q_left = 0, q_right = 800,
      q_companionTextureId = None,
      q_availabilityStatus = 1,
      q_lastCommandId = None,
      q_version = version\<rparr>"

definition exampleRequest :: "int websocketQuery \<Rightarrow> int upgradeRequest" where
  "exampleRequest q = \<lparr>rq_query = Some q, rq_IPAddress = ''203.0.113.7'', rq_locale = ''en''\<rparr>"

section \<open>Properties\<close>

subsection \<open>Admin listen requests\<close>

lemma filter_not_member_empty:
  "(filter (\<lambda>r. r \<notin> set A) L = []) = (set L \<subseteq> set A)"
  by (induction L) auto

text \<open>
  Claim C1. A listen request whose token verifies with allow-list \<open>A\<close> and that names
  the rooms \<open>L\<close>: when some room of \<open>L\<close> is outside \<open>A\<close>, the handler reports the
  refusal, sends an error frame to the sender and ends the connection with close code
  1008 (access refused), and calls \<^verbatim>\<open>handleAdminRoom\<close> for no room at all; when every
  room of \<open>L\<close> is in \<open>A\<close>, it calls \<^verbatim>\<open>handleAdminRoom\<close> once for each room of
  \<open>L\<close>, in order, and does nothing else.
\<close>

theorem listen_all_or_nothing:
  assumes "verifyAdminSocketToken env token = Inr A"
  shows "(\<not> set L \<subseteq> set A \<longrightarrow>
            (\<exists>m. adminRoomSocket_message env addr (ValidMessage (ListenMessage token L)) =
                   [Capture (CaptureText m), SendError m, End 1008 ''Access refused'']) \<and>
            (\<forall>r. HandleAdminRoom r \<notin>
                   set (adminRoomSocket_message env addr (ValidMessage (ListenMessage token L))))) \<and>
         (set L \<subseteq> set A \<longrightarrow>
            adminRoomSocket_message env addr (ValidMessage (ListenMessage token L)) =
              map HandleAdminRoom L)"
  using assms by (auto simp: filter_not_member_empty Let_def)

theorem listen_all_or_nothing_witness:
  "adminRoomSocket_message
     \<lparr>verifyAdminSocketToken = (\<lambda>t. Inr [''a'', ''b'']), JSON_stringify = concat\<rparr>
     ''peer'' (ValidMessage (ListenMessage ''t'' [''a'', ''b''])) =
     [HandleAdminRoom ''a'', HandleAdminRoom ''b''] \<and>
   adminRoomSocket_message
     \<lparr>verifyAdminSocketToken = (\<lambda>t. Inr [''a'', ''b'']), JSON_stringify = concat\<rparr>
     ''peer'' (ValidMessage (ListenMessage ''t'' [''a'', ''z''])) =
     [Capture (CaptureText (''Admin socket refused for client on peer listening of : '' @
                            [CHR 0x0A] @ ''z'')),
      SendError (''Admin socket refused for client on peer listening of : '' @
                 [CHR 0x0A] @ ''z''),
      End 1008 ''Access refused'']"
  using listen_all_or_nothing
          [of "\<lparr>verifyAdminSocketToken = (\<lambda>t. Inr [''a'', ''b'']), JSON_stringify = concat\<rparr>"
              "''t''" "[''a'', ''b'']" "[''a'', ''b'']" "''peer''"]
        listen_all_or_nothing
          [of "\<lparr>verifyAdminSocketToken = (\<lambda>t. Inr [''a'', ''b'']), JSON_stringify = concat\<rparr>"
              "''t''" "[''a'', ''b'']" "[''a'', ''z'']" "''peer''"]
  by (simp add: refusedListenMessage_def Let_def)

subsection \<open>The path of a run through the upgrade handler\<close>

lemma upgrade_from_reaches:
  assumes "rq_query req = Some q" and "reachesLookup env q td"
  shows "upgrade_from env req uuid a cg =
     (case upgrade_afterLookup env q (rq_IPAddress req) uuid
             (normalizeCharacterTextureIds (q_characterTextureIds q))
             (userIdentifier_of td) (truthy (accessToken_of td)) (a \<or> cg)
             (lookupMemberData env q (rq_IPAddress req) (rq_locale req) td) of
        (captured, Inr called) \<Rightarrow> (captured, called)
      | (captured, Inl e) \<Rightarrow>
          (case upgrade_catch env q (a \<or> cg) e of
             (captured', called) \<Rightarrow> (captured @ captured', called)))"
  using assms
  by (auto simp: upgrade_from_def upgrade_try_def reachesLookup_def Let_def
           split: prod.splits sum.splits)

lemma upgrade_catch_aborted: "snd (upgrade_catch env q True e) = None"
  by (simp add: upgrade_catch_def)

lemma upgrade_withMemberData_aborted:
  "upgrade_withMemberData env q ip uuid ids uid lg True userData = None"
  by (simp add: upgrade_withMemberData_def Let_def)

lemma upgrade_afterLookup_aborted:
  "snd (upgrade_afterLookup env q ip uuid ids uid lg True looked) = Inr None \<or>
   (\<exists>e. snd (upgrade_afterLookup env q ip uuid ids uid lg True looked) = Inl e)"
  by (auto simp: upgrade_afterLookup_def upgrade_withMemberData_aborted
           split: sum.splits thrown.splits option.splits)

lemma no_session_rejected:
  "filter createsSession (open_rejected env failed) = []"
  by (cases failed) (auto split: entityType.splits)

subsection \<open>Aborted handshakes\<close>

text \<open>
  Claim C2. An upgrade of \<^verbatim>\<open>/room\<close> whose run reaches the awaited member-data
  lookup: if the abort flag is set when the lookup has settled (the client disconnected
  during the handshake), the run calls \<^verbatim>\<open>res.upgrade\<close> on no path, whatever the
  lookup returned or threw: not with the seed of a session, and not with a rejection.
\<close>

theorem aborted_upgrade_never_upgrades:
  assumes "rq_query req = Some q" and "reachesLookup env q tokenData"
  shows "snd (ioConnection_upgrade env req uuid True) = None"
proof -
  let ?r = "upgrade_afterLookup env q (rq_IPAddress req) uuid
             (normalizeCharacterTextureIds (q_characterTextureIds q))
             (userIdentifier_of tokenData) (truthy (accessToken_of tokenData)) True
             (lookupMemberData env q (rq_IPAddress req) (rq_locale req) tokenData)"
  obtain c r where cr: "?r = (c, r)" by (cases ?r)
  have "r = Inr None \<or> (\<exists>e. r = Inl e)"
    using upgrade_afterLookup_aborted [of env q "rq_IPAddress req" uuid
            "normalizeCharacterTextureIds (q_characterTextureIds q)"
            "userIdentifier_of tokenData" "truthy (accessToken_of tokenData)"
            "lookupMemberData env q (rq_IPAddress req) (rq_locale req) tokenData"] cr
    by simp
  then show ?thesis
  proof
    assume "r = Inr None"
    then show ?thesis
      using cr upgrade_from_reaches [OF assms, of uuid False True]
      by (simp add: ioConnection_upgrade_def)
  next
    assume "\<exists>e. r = Inl e"
    then obtain e where "r = Inl e" ..
    then show ?thesis
      using cr upgrade_from_reaches [OF assms, of uuid False True]
            upgrade_catch_aborted [of env q e]
      by (simp add: ioConnection_upgrade_def split: prod.splits)
  qed
qed

theorem aborted_upgrade_never_upgrades_witness:
  "reachesLookup exampleEnv (exampleQuery ''lobby'' (Some ''good'') ''v2'')
     (Some \<lparr>t_identifier = ''alice'', t_accessToken = Some ''access''\<rparr>) \<and>
   snd (ioConnection_upgrade exampleEnv
          (exampleRequest (exampleQuery ''lobby'' (Some ''good'') ''v2'')) ''u1'' True) = None"
proof -
  have q: "rq_query (exampleRequest (exampleQuery ''lobby'' (Some ''good'') ''v2'')) =
             Some (exampleQuery ''lobby'' (Some ''good'') ''v2'')"
    by (simp add: exampleRequest_def)
  have r: "reachesLookup exampleEnv (exampleQuery ''lobby'' (Some ''good'') ''v2'')
             (Some \<lparr>t_identifier = ''alice'', t_accessToken = Some ''access''\<rparr>)"
    by (simp add: reachesLookup_def exampleQuery_def exampleEnv_def verifyOptionalToken_def)
  show ?thesis
    using r aborted_upgrade_never_upgrades [OF q r, of "''u1''"] by simp
qed

subsection \<open>Closing a player connection\<close>

text \<open>
  Claim C3, as stated, fails: when \<^verbatim>\<open>leaveRoom\<close> throws, the exception leaves the
  \<^verbatim>\<open>try\<close> block before \<^verbatim>\<open>leaveSpaces\<close> is called. The exception is
  captured and both timers are cleared, but the spaces are not left.
\<close>

theorem close_skips_leaveSpaces_counterexample:
  "fst (ioConnection_close (Some (PlainError ''room is gone'')) None
          \<lparr>disconnecting = False, pingIntervalId = Some 1, pongTimeoutId = Some 2\<rparr>) =
     [LeaveRoom, CaptureDisconnect (PlainError ''room is gone''), ClearInterval 1,
      ClearTimeout 2] \<and>
   LeaveSpaces \<notin> set (fst (ioConnection_close (Some (PlainError ''room is gone'')) None
          \<lparr>disconnecting = False, pingIntervalId = Some 1, pongTimeoutId = Some 2\<rparr>))"
  by (simp add: ioConnection_close_def close_try_def close_catch_def close_finally_def)

text \<open>
  Claim C3, amended. On every close of a player connection: an exception thrown by
  \<^verbatim>\<open>leaveRoom\<close> or by \<^verbatim>\<open>leaveSpaces\<close> is caught and captured for telemetry;
  \<^verbatim>\<open>leaveSpaces\<close> is called exactly when \<^verbatim>\<open>leaveRoom\<close> returned without
  throwing; each of the two liveness timers that is set is cleared, whether a step threw or
  not; and the socket is marked as disconnecting.
\<close>

theorem close_reports_and_clears_timers:
  "(leaveRoomThrows = Some e \<or> (leaveRoomThrows = None \<and> leaveSpacesThrows = Some e) \<longrightarrow>
      CaptureDisconnect e \<in> set (fst (ioConnection_close leaveRoomThrows leaveSpacesThrows ws))) \<and>
   (LeaveSpaces \<in> set (fst (ioConnection_close leaveRoomThrows leaveSpacesThrows ws))
      \<longleftrightarrow> leaveRoomThrows = None) \<and>
   (pingIntervalId ws = Some t \<longrightarrow>
      ClearInterval t \<in> set (fst (ioConnection_close leaveRoomThrows leaveSpacesThrows ws))) \<and>
   (pongTimeoutId ws = Some t' \<longrightarrow>
      ClearTimeout t' \<in> set (fst (ioConnection_close leaveRoomThrows leaveSpacesThrows ws))) \<and>
   disconnecting (snd (ioConnection_close leaveRoomThrows leaveSpacesThrows ws))"
  by (auto simp: ioConnection_close_def close_try_def close_catch_def close_finally_def
           split: option.splits)

theorem close_reports_and_clears_timers_witness:
  "CaptureDisconnect (PlainError ''space is gone'') \<in> set (fst (ioConnection_close None
      (Some (PlainError ''space is gone''))
      \<lparr>disconnecting = False, pingIntervalId = Some 1, pongTimeoutId = Some 2\<rparr>)) \<and>
   LeaveSpaces \<in> set (fst (ioConnection_close None (Some (PlainError ''space is gone''))
      \<lparr>disconnecting = False, pingIntervalId = Some 1, pongTimeoutId = Some 2\<rparr>)) \<and>
   ClearInterval 1 \<in> set (fst (ioConnection_close None (Some (PlainError ''space is gone''))
      \<lparr>disconnecting = False, pingIntervalId = Some 1, pongTimeoutId = Some 2\<rparr>)) \<and>
   ClearTimeout 2 \<in> set (fst (ioConnection_close None (Some (PlainError ''space is gone''))
      \<lparr>disconnecting = False, pingIntervalId = Some 1, pongTimeoutId = Some 2\<rparr>))"
  using close_reports_and_clears_timers
          [where leaveRoomThrows = None
             and leaveSpacesThrows = "Some (PlainError ''space is gone'')"
             and e = "PlainError ''space is gone''"
             and ws = "\<lparr>disconnecting = False, pingIntervalId = Some 1, pongTimeoutId = Some 2\<rparr>"
             and t = 1 and t' = 2]
  by simp

subsection \<open>Version mismatch\<close>

text \<open>
  From any state of the abort flag, a version mismatch ends the run before the lookup:
  with a rejection when the flag is unset, with no call when it is set.
\<close>

lemma version_mismatch_from_any_flag:
  assumes "rq_query req = Some q" and "q_version q \<noteq> apiVersionHash env"
  shows "upgrade_from env req uuid aborted clientGone =
           ([], if aborted then None
                else Some (Rejected (UpgradeFailedErrorData 419 newVersionError)))"
  using assms by (simp add: upgrade_from_def upgrade_try_def)

text \<open>
  Claim C4. An upgrade request whose \<^verbatim>\<open>version\<close> differs from the server's
  \<^verbatim>\<open>apiVersionHash\<close>: the handler passes on a rejection of reason
  \<^verbatim>\<open>"error"\<close> and status 419 whose payload is the retryable refresh notice; on
  \<^verbatim>\<open>open\<close> that payload is sent as an error screen and the socket is closed; neither
  \<^verbatim>\<open>initClient\<close> nor \<^verbatim>\<open>handleJoinRoom\<close> is called. The check comes before
  the run is first suspended, so the abort flag is still unset there.
\<close>

theorem version_mismatch_rejected:
  assumes "rq_query req = Some q" and "q_version q \<noteq> apiVersionHash env"
  shows "ioConnection_upgrade env req uuid clientGone =
           ([], Some (Rejected (UpgradeFailedErrorData 419 newVersionError))) \<and>
         reason_of (UpgradeFailedErrorData 419 newVersionError) = Some ''error'' \<and>
         status_of (UpgradeFailedErrorData 419 newVersionError) = Some 419 \<and>
         jsonMember newVersionError ''type'' = Some (JStr ''retry'') \<and>
         jsonMember newVersionError ''canRetryManual'' = Some (JBool True) \<and>
         connect env req uuid clientGone joinRoomThrows disc =
           [EmitErrorScreenMessage newVersionError, WsEnd 1000 ''Error message sent''] \<and>
         filter createsSession (connect env req uuid clientGone joinRoomThrows disc) = []"
  using assms
  by (simp add: ioConnection_upgrade_def upgrade_from_def upgrade_try_def connect_def
        newVersionError_def)

theorem version_mismatch_rejected_witness:
  "ioConnection_upgrade exampleEnv (exampleRequest (exampleQuery ''lobby'' None ''v1'')) ''u1'' False =
     ([], Some (Rejected (UpgradeFailedErrorData 419 newVersionError))) \<and>
   connect exampleEnv (exampleRequest (exampleQuery ''lobby'' None ''v1'')) ''u1'' False None False =
     [EmitErrorScreenMessage newVersionError, WsEnd 1000 ''Error message sent'']"
  using version_mismatch_rejected
          [of "exampleRequest (exampleQuery ''lobby'' None ''v1'')"
              "exampleQuery ''lobby'' None ''v1''" exampleEnv "''u1''" False None False]
  by (simp add: exampleRequest_def exampleQuery_def exampleEnv_def)

subsection \<open>Opening a rejected connection\<close>

lemma reason_of_invalidData:
  "reason_of (UpgradeFailedInvalidData reason msg status roomId) \<noteq> Some ''error''"
  "reason_of (UpgradeFailedInvalidData reason msg status roomId) \<noteq> Some ''invalidTexture''"
proof -
  show "reason_of (UpgradeFailedInvalidData reason msg status roomId) \<noteq> Some ''error''"
  proof (cases reason)
    case None then show ?thesis by simp
  next
    case (Some a) then show ?thesis by (cases a) simp_all
  qed
  show "reason_of (UpgradeFailedInvalidData reason msg status roomId) \<noteq> Some ''invalidTexture''"
  proof (cases reason)
    case None then show ?thesis by simp
  next
    case (Some a) then show ?thesis by (cases a) simp_all
  qed
qed

text \<open>
  Claim C5, as stated, fails: the close code does not come from the rejection reason.
  Rejections of three different reasons (an invalid token, an unresolved texture, a
  typed error) are all closed by \<^verbatim>\<open>ws.end(1000, "Error message sent")\<close>.
\<close>

theorem rejected_close_code_counterexample:
  "reason_of (UpgradeFailedInvalidData (Some tokenInvalid) (Some (JStr ''jwt expired'')) 401 ''lobby'') = Some ''tokenInvalid'' \<and>
   closeCodes (ioConnection_open exampleEnv None False
      (Rejected (UpgradeFailedInvalidData (Some tokenInvalid) (Some (JStr ''jwt expired'')) 401 ''lobby''))
      :: int openCall list) = [1000] \<and>
   reason_of (UpgradeFailedInvalidTexture character) = Some ''invalidTexture'' \<and>
   closeCodes (ioConnection_open exampleEnv None False
      (Rejected (UpgradeFailedInvalidTexture character)) :: int openCall list) = [1000] \<and>
   reason_of (UpgradeFailedErrorData 419 newVersionError) = Some ''error'' \<and>
   closeCodes (ioConnection_open exampleEnv None False
      (Rejected (UpgradeFailedErrorData 419 newVersionError)) :: int openCall list) = [1000]"
  by (simp add: closeCodes_def exampleEnv_def List.map_filter_simps)

text \<open>
  Claim C5, amended. For every rejected upgrade, whatever its reason: when the socket
  opens, the handler (after asking for the room of the rejection to be deleted if it is
  empty, when the rejection names a room) emits one error message chosen by the reason
  (the error screen for \<^verbatim>\<open>"error"\<close>, an invalid-texture message for
  \<^verbatim>\<open>"invalidTexture"\<close>, the token-expired message for the token manager's
  reason, a connection error otherwise) and then closes the socket at once with the
  fixed close code 1000, the same for every reason; neither \<^verbatim>\<open>initClient\<close> nor
  \<^verbatim>\<open>handleJoinRoom\<close> is called.
\<close>

theorem rejected_open_closes_1000:
  "\<exists>cleanup emitted.
     (ioConnection_open env joinRoomThrows disc (Rejected failed) :: 'n openCall list) =
       cleanup @ [emitted, WsEnd 1000 ''Error message sent''] \<and>
     (\<forall>c \<in> set cleanup. \<exists>roomId. c = DeleteRoomIfEmptyFromId roomId) \<and>
     isErrorEmit emitted \<and>
     ((reason_of failed = Some ''error'') = (\<exists>err. emitted = EmitErrorScreenMessage err)) \<and>
     ((reason_of failed = Some ''invalidTexture'') =
        (emitted = EmitInvalidCharacterTextureMessage \<or>
         emitted = EmitInvalidCompanionTextureMessage)) \<and>
     ((\<exists>m s r. failed = UpgradeFailedInvalidData (Some (tokenInvalidException env)) m s r) =
        (emitted = EmitTokenExpiredMessage)) \<and>
     closeCodes (ioConnection_open env joinRoomThrows disc (Rejected failed)
                   :: 'n openCall list) = [1000] \<and>
     filter createsSession (ioConnection_open env joinRoomThrows disc (Rejected failed)
                              :: 'n openCall list) = []"
proof (cases failed)
  case (UpgradeFailedInvalidData reason msg status roomId)
  let ?cleanup = "(if roomId \<noteq> [] then [DeleteRoomIfEmptyFromId roomId] else [])
                    :: 'n openCall list"
  let ?emitted = "(if reason = Some (tokenInvalidException env) then EmitTokenExpiredMessage
                   else EmitConnectionErrorMessage msg) :: 'n openCall"
  have f1: "ioConnection_open env joinRoomThrows disc (Rejected failed) =
          ?cleanup @ [?emitted, WsEnd 1000 ''Error message sent'']"
    using UpgradeFailedInvalidData by simp
  have f2: "\<forall>c \<in> set ?cleanup. \<exists>roomId. c = DeleteRoomIfEmptyFromId roomId"
    by simp
  have f3: "isErrorEmit ?emitted"
    by simp
  have f4: "(reason_of failed = Some ''error'') = (\<exists>err. ?emitted = EmitErrorScreenMessage err)"
    using UpgradeFailedInvalidData by (simp add: reason_of_invalidData)
  have f5: "(reason_of failed = Some ''invalidTexture'') =
        (?emitted = EmitInvalidCharacterTextureMessage \<or>
         ?emitted = EmitInvalidCompanionTextureMessage)"
    using UpgradeFailedInvalidData by (simp add: reason_of_invalidData)
  have f6: "(\<exists>m s r. failed = UpgradeFailedInvalidData (Some (tokenInvalidException env)) m s r) =
        (?emitted = EmitTokenExpiredMessage)"
    using UpgradeFailedInvalidData by simp
  have f7: "closeCodes (ioConnection_open env joinRoomThrows disc (Rejected failed)
                   :: 'n openCall list) = [1000]"
    using UpgradeFailedInvalidData by (simp add: closeCodes_def List.map_filter_simps)
  have f8: "filter createsSession (ioConnection_open env joinRoomThrows disc (Rejected failed)
                   :: 'n openCall list) = []"
    by (simp add: no_session_rejected)
  show ?thesis
    by (intro exI [of _ ?cleanup] exI [of _ ?emitted] conjI f1 f2 f3 f4 f5 f6 f7 f8)
next
  case (UpgradeFailedErrorData status err)
  have "ioConnection_open env joinRoomThrows disc (Rejected failed) =
          [] @ [EmitErrorScreenMessage err, WsEnd 1000 ''Error message sent'']"
    using UpgradeFailedErrorData by simp
  moreover have "(reason_of failed = Some ''error'')"
    using UpgradeFailedErrorData by simp
  moreover have "reason_of failed \<noteq> Some ''invalidTexture''"
    using UpgradeFailedErrorData by simp
  moreover have "\<not> (\<exists>m s r. failed = UpgradeFailedInvalidData (Some (tokenInvalidException env)) m s r)"
    using UpgradeFailedErrorData by simp
  moreover have "closeCodes (ioConnection_open env joinRoomThrows disc (Rejected failed)
                   :: 'n openCall list) = [1000]"
    using UpgradeFailedErrorData by (simp add: closeCodes_def List.map_filter_simps)
  moreover have "filter createsSession (ioConnection_open env joinRoomThrows disc (Rejected failed)
                   :: 'n openCall list) = []"
    by (simp add: no_session_rejected)
  ultimately show ?thesis
    apply (intro exI [of _ "[]"] exI [of _ "EmitErrorScreenMessage err"])
    apply simp
    done
next
  case (UpgradeFailedInvalidTexture entity)
  let ?emitted = "(case entity of character \<Rightarrow> EmitInvalidCharacterTextureMessage
                   | companion \<Rightarrow> EmitInvalidCompanionTextureMessage) :: 'n openCall"
  have "ioConnection_open env joinRoomThrows disc (Rejected failed) =
          [] @ [?emitted, WsEnd 1000 ''Error message sent'']"
    using UpgradeFailedInvalidTexture by simp
  moreover have "isErrorEmit ?emitted"
    by (cases entity) simp_all
  moreover have "?emitted = EmitInvalidCharacterTextureMessage \<or>
         ?emitted = EmitInvalidCompanionTextureMessage"
    by (cases entity) simp_all
  moreover have "\<not> (\<exists>err. ?emitted = EmitErrorScreenMessage err)"
    by (cases entity) simp_all
  moreover have "?emitted \<noteq> EmitTokenExpiredMessage"
    by (cases entity) simp_all
  moreover have "reason_of failed = Some ''invalidTexture''"
    using UpgradeFailedInvalidTexture by simp
  moreover have "\<not> (\<exists>m s r. failed = UpgradeFailedInvalidData (Some (tokenInvalidException env)) m s r)"
    using UpgradeFailedInvalidTexture by simp
  moreover have "closeCodes (ioConnection_open env joinRoomThrows disc (Rejected failed)
                   :: 'n openCall list) = [1000]"
    using UpgradeFailedInvalidTexture
    by (cases entity) (simp_all add: closeCodes_def List.map_filter_simps)
  moreover have "filter createsSession (ioConnection_open env joinRoomThrows disc (Rejected failed)
                   :: 'n openCall list) = []"
    by (simp add: no_session_rejected)
  ultimately show ?thesis
    apply (intro exI [of _ "[]"] exI [of _ ?emitted])
    apply simp
    done
qed

theorem rejected_open_closes_1000_witness:
  "ioConnection_open exampleEnv None False
     (Rejected (UpgradeFailedInvalidData None (Some (JStr ''Expecting token'')) 401 ''lobby'')) =
     [DeleteRoomIfEmptyFromId ''lobby'', EmitConnectionErrorMessage (Some (JStr ''Expecting token'')),
      WsEnd 1000 ''Error message sent'' :: int openCall] \<and>
   closeCodes (ioConnection_open exampleEnv None False
     (Rejected (UpgradeFailedInvalidData None (Some (JStr ''Expecting token'')) 401 ''lobby''))
     :: int openCall list) = [1000]"
  using rejected_open_closes_1000
          [where env = exampleEnv and joinRoomThrows = None and disc = False
             and failed = "UpgradeFailedInvalidData None (Some (JStr ''Expecting token'')) 401 ''lobby''"
             and 'n = int]
  by (simp add: closeCodes_def List.map_filter_simps)

subsection \<open>Failure of the member-data lookup\<close>

text \<open>
  Claim C6, as stated, fails when the client disconnects while the lookup is pending:
  the lookup throws an Axios error whose body parses as a typed payload, and the handler,
  finding the abort flag set, returns without passing any rejection on.
\<close>

theorem lookup_axios_error_aborted_counterexample:
  "lookupMemberData exampleEnv (exampleQuery ''typed'' None ''v2'') ''203.0.113.7'' ''en'' None =
     Inl (AxiosError ''Request failed with status code 403''
            (Some \<lparr>r_status = Some 403,
                   r_data = Some (JObj [(''type'', JStr ''error''),
                                        (''code'', JStr ''ROOM_ACCESS_ERROR'')])\<rparr>)) \<and>
   ErrorApiData_safeParse exampleEnv
     (Some (JObj [(''type'', JStr ''error''), (''code'', JStr ''ROOM_ACCESS_ERROR'')])) =
     Some (JObj [(''type'', JStr ''error''), (''code'', JStr ''ROOM_ACCESS_ERROR'')]) \<and>
   ioConnection_upgrade exampleEnv (exampleRequest (exampleQuery ''typed'' None ''v2'')) ''u1'' True =
     ([], None)"
  by (simp add: lookupMemberData_def exampleEnv_def exampleQuery_def exampleRequest_def
        ioConnection_upgrade_def upgrade_from_def upgrade_try_def upgrade_afterLookup_def
        verifyOptionalToken_def responseData_def Let_def)

text \<open>
  Claim C6, amended. For every upgrade during which the lookup throws an Axios error, and
  the client has not disconnected meanwhile: if the body of the response parses as
  \<^verbatim>\<open>ErrorApiData\<close>, the upgrade is rejected with reason \<^verbatim>\<open>"error"\<close>, the
  HTTP status of the response (500 when the response or its status is absent, or the status
  is 0) and the parsed payload; if the body does not parse, it is rejected with reason
  \<^verbatim>\<open>null\<close>, status 500 and the raw body as message. If the client disconnected
  while the lookup was pending, \<^verbatim>\<open>res.upgrade\<close> is not called.
\<close>

theorem lookup_axios_error_rejected:
  assumes "rq_query req = Some q"
    and "reachesLookup env q tokenData"
    and "lookupMemberData env q (rq_IPAddress req) (rq_locale req) tokenData =
           Inl (AxiosError m response)"
  shows "(ErrorApiData_safeParse env (responseData response) = Some payload \<longrightarrow>
            ioConnection_upgrade env req uuid False =
              ([AxiosErrorOnRoomConnection
                  (case response of None \<Rightarrow> None | Some r \<Rightarrow> r_status r) payload],
               Some (Rejected (UpgradeFailedErrorData (statusOr500 response) payload))) \<and>
            reason_of (UpgradeFailedErrorData (statusOr500 response) payload) = Some ''error'') \<and>
         (ErrorApiData_safeParse env (responseData response) = None \<longrightarrow>
            ioConnection_upgrade env req uuid False =
              ([UnknownErrorOnRoomConnection (AxiosError m response)],
               Some (Rejected (UpgradeFailedInvalidData None (responseData response) 500
                                 (q_roomId q)))) \<and>
            reason_of (UpgradeFailedInvalidData None (responseData response) 500 (q_roomId q)) =
              None) \<and>
         (statusOr500 response =
            (case response of
               None \<Rightarrow> 500
             | Some r \<Rightarrow> (case r_status r of None \<Rightarrow> 500 | Some s \<Rightarrow> if s = 0 then 500 else s))) \<and>
         snd (ioConnection_upgrade env req uuid True) = None"
proof -
  have a: "snd (ioConnection_upgrade env req uuid True) = None"
    using upgrade_from_reaches [OF assms(1,2), of uuid False True] assms(3)
    by (simp add: ioConnection_upgrade_def upgrade_afterLookup_def split: option.splits)
  have b: "ErrorApiData_safeParse env (responseData response) = Some payload \<longrightarrow>
            ioConnection_upgrade env req uuid False =
              ([AxiosErrorOnRoomConnection
                  (case response of None \<Rightarrow> None | Some r \<Rightarrow> r_status r) payload],
               Some (Rejected (UpgradeFailedErrorData (statusOr500 response) payload)))"
    using upgrade_from_reaches [OF assms(1,2), of uuid False False] assms(3)
    by (simp add: ioConnection_upgrade_def upgrade_afterLookup_def)
  have c: "ErrorApiData_safeParse env (responseData response) = None \<longrightarrow>
            ioConnection_upgrade env req uuid False =
              ([UnknownErrorOnRoomConnection (AxiosError m response)],
               Some (Rejected (UpgradeFailedInvalidData None (responseData response) 500
                                 (q_roomId q))))"
    using upgrade_from_reaches [OF assms(1,2), of uuid False False] assms(3)
    by (simp add: ioConnection_upgrade_def upgrade_afterLookup_def)
  show ?thesis using a b c by (simp add: statusOr500_def)
qed

theorem lookup_axios_error_rejected_witness:
  "ioConnection_upgrade exampleEnv (exampleRequest (exampleQuery ''typed'' None ''v2'')) ''u1'' False =
     ([AxiosErrorOnRoomConnection (Some 403)
         (JObj [(''type'', JStr ''error''), (''code'', JStr ''ROOM_ACCESS_ERROR'')])],
      Some (Rejected (UpgradeFailedErrorData 403
         (JObj [(''type'', JStr ''error''), (''code'', JStr ''ROOM_ACCESS_ERROR'')])))) \<and>
   snd (ioConnection_upgrade exampleEnv (exampleRequest (exampleQuery ''typed'' None ''v2''))
          ''u1'' True) = None"
proof -
  let ?q = "exampleQuery ''typed'' None ''v2''"
  let ?resp = "Some \<lparr>r_status = Some 403,
                   r_data = Some (JObj [(''type'', JStr ''error''),
                                        (''code'', JStr ''ROOM_ACCESS_ERROR'')])\<rparr>"
  have q: "rq_query (exampleRequest ?q) = Some ?q"
    by (simp add: exampleRequest_def)
  have r: "reachesLookup exampleEnv ?q None"
    by (simp add: reachesLookup_def exampleQuery_def exampleEnv_def verifyOptionalToken_def)
  have l: "lookupMemberData exampleEnv ?q (rq_IPAddress (exampleRequest ?q))
             (rq_locale (exampleRequest ?q)) None =
           Inl (AxiosError ''Request failed with status code 403'' ?resp)"
    by (simp add: lookupMemberData_def exampleEnv_def exampleQuery_def)
  have p: "ErrorApiData_safeParse exampleEnv (responseData ?resp) =
             Some (JObj [(''type'', JStr ''error''), (''code'', JStr ''ROOM_ACCESS_ERROR'')])"
    by (simp add: exampleEnv_def responseData_def)
  show ?thesis
    using lookup_axios_error_rejected [OF q r l, of _ "''u1''"] p
    by (simp add: statusOr500_def)
qed

subsection \<open>Anonymous users refused\<close>

text \<open>
  Claim C7, as stated, fails: the rejection of a request without token, on a server that
  refuses anonymous users, carries no reason tag. Its reason is \<^verbatim>\<open>null\<close>; that
  a token was expected is said by its message only.
\<close>

theorem anonymous_refused_reason_counterexample:
  "snd (ioConnection_upgrade (exampleEnv\<lparr>DISABLE_ANONYMOUS := True\<rparr>)
          (exampleRequest (exampleQuery ''lobby'' None ''v2'')) ''u1'' False) =
     Some (Rejected (UpgradeFailedInvalidData None (Some (JStr ''Expecting token'')) 401 ''lobby'')) \<and>
   reason_of (UpgradeFailedInvalidData None (Some (JStr ''Expecting token'')) 401 ''lobby'') = None"
  by (simp add: exampleEnv_def exampleQuery_def exampleRequest_def
        ioConnection_upgrade_def upgrade_from_def upgrade_try_def upgrade_catch_def
        verifyOptionalToken_def Let_def)

text \<open>
  Claim C7, amended. For every upgrade request of the server's version that has no bearer
  token (absent or empty) while \<^verbatim>\<open>DISABLE_ANONYMOUS\<close> is set: the exception
  \<^verbatim>\<open>Expecting token\<close> is captured and the upgrade is rejected with status 401,
  reason \<^verbatim>\<open>null\<close> and the message \<^verbatim>\<open>Expecting token\<close>; neither
  \<^verbatim>\<open>initClient\<close> nor \<^verbatim>\<open>handleJoinRoom\<close> is called.
\<close>

theorem anonymous_refused_401:
  assumes "rq_query req = Some q"
    and "q_version q = apiVersionHash env"
    and "\<not> truthy (q_token q)"
    and "DISABLE_ANONYMOUS env"
  shows "ioConnection_upgrade env req uuid clientGone =
           ([CaptureThrown (PlainError ''Expecting token'')],
            Some (Rejected (UpgradeFailedInvalidData None (Some (JStr ''Expecting token'')) 401
                              (q_roomId q)))) \<and>
         reason_of (UpgradeFailedInvalidData None (Some (JStr ''Expecting token'')) 401
                      (q_roomId q)) = None \<and>
         status_of (UpgradeFailedInvalidData None (Some (JStr ''Expecting token'')) 401
                      (q_roomId q)) = Some 401 \<and>
         filter createsSession (connect env req uuid clientGone joinRoomThrows disc) = []"
proof -
  have v: "verifyOptionalToken env (q_token q) = Inr None"
    using assms(3) by (cases "q_token q") (simp_all add: verifyOptionalToken_def)
  have u: "ioConnection_upgrade env req uuid clientGone =
           ([CaptureThrown (PlainError ''Expecting token'')],
            Some (Rejected (UpgradeFailedInvalidData None (Some (JStr ''Expecting token'')) 401
                              (q_roomId q))))"
    using assms v
    by (simp add: ioConnection_upgrade_def upgrade_from_def upgrade_try_def upgrade_catch_def
          Let_def)
  show ?thesis
    using u by (simp add: connect_def no_session_rejected)
qed

theorem anonymous_refused_401_witness:
  "ioConnection_upgrade (exampleEnv\<lparr>DISABLE_ANONYMOUS := True\<rparr>)
          (exampleRequest (exampleQuery ''lobby'' (Some []) ''v2'')) ''u1'' False =
     ([CaptureThrown (PlainError ''Expecting token'')],
      Some (Rejected (UpgradeFailedInvalidData None (Some (JStr ''Expecting token'')) 401 ''lobby'')))"
proof -
  let ?q = "exampleQuery ''lobby'' (Some []) ''v2''"
  have 1: "rq_query (exampleRequest ?q) = Some ?q" by (simp add: exampleRequest_def)
  have 2: "q_version ?q = apiVersionHash (exampleEnv\<lparr>DISABLE_ANONYMOUS := True\<rparr>)"
    by (simp add: exampleQuery_def exampleEnv_def)
  have 3: "\<not> truthy (q_token ?q)" by (simp add: exampleQuery_def)
  have 4: "DISABLE_ANONYMOUS (exampleEnv\<lparr>DISABLE_ANONYMOUS := True\<rparr>)" by simp
  show ?thesis
    using anonymous_refused_401 [OF 1 2 3 4, of "''u1''" False]
    by (simp add: exampleQuery_def)
qed

subsection \<open>Texture validation\<close>

text \<open>
  Claim C8. An upgrade that reaches the texture checks (the lookup returned member data
  and the client has not disconnected): if the number of resolved character textures
  differs from the number of requested ids, it is rejected with reason
  \<^verbatim>\<open>"invalidTexture"\<close> and entity type \<^verbatim>\<open>"character"\<close>; if the numbers
  agree and a companion texture id was requested (present and not empty) but no companion
  texture was resolved, it is rejected with reason \<^verbatim>\<open>"invalidTexture"\<close> and entity
  type \<^verbatim>\<open>"companion"\<close>; otherwise it is accepted, so no invalid-texture rejection
  occurs. The cases are read in the order in which the handler checks them: a requested
  companion texture that was not resolved always leads to an invalid-texture rejection,
  whose entity type is the character's when the character check has failed first.
\<close>

theorem texture_validation:
  assumes "rq_query req = Some q"
    and "reachesLookup env q tokenData"
    and "lookupMemberData env q (rq_IPAddress req) (rq_locale req) tokenData = Inr userData"
  shows "(length (normalizeCharacterTextureIds (q_characterTextureIds q)) \<noteq>
            length (m_characterTextures userData) \<longrightarrow>
            snd (ioConnection_upgrade env req uuid False) =
              Some (Rejected (UpgradeFailedInvalidTexture character))) \<and>
         (length (normalizeCharacterTextureIds (q_characterTextureIds q)) =
            length (m_characterTextures userData) \<and>
          truthy (q_companionTextureId q) \<and> m_companionTexture userData = None \<longrightarrow>
            snd (ioConnection_upgrade env req uuid False) =
              Some (Rejected (UpgradeFailedInvalidTexture companion))) \<and>
         (length (normalizeCharacterTextureIds (q_characterTextureIds q)) =
            length (m_characterTextures userData) \<and>
          \<not> (truthy (q_companionTextureId q) \<and> m_companionTexture userData = None) \<longrightarrow>
            (\<exists>seed. snd (ioConnection_upgrade env req uuid False) = Some (Accepted seed))) \<and>
         (truthy (q_companionTextureId q) \<and> m_companionTexture userData = None \<longrightarrow>
            (\<exists>entity. snd (ioConnection_upgrade env req uuid False) =
                        Some (Rejected (UpgradeFailedInvalidTexture entity))))"
  using upgrade_from_reaches [OF assms(1,2), of uuid False False] assms(3)
  by (simp add: ioConnection_upgrade_def upgrade_afterLookup_def upgrade_withMemberData_def
        Let_def)

theorem texture_validation_witness:
  "snd (ioConnection_upgrade exampleEnv
          (exampleRequest ((exampleQuery ''lobby'' None ''v2'')
             \<lparr>q_characterTextureIds := StringArray [''body'', ''missing'']\<rparr>)) ''u1'' False) =
     Some (Rejected (UpgradeFailedInvalidTexture character)) \<and>
   snd (ioConnection_upgrade exampleEnv
          (exampleRequest ((exampleQuery ''lobby'' None ''v2'')
             \<lparr>q_companionTextureId := Some ''missing''\<rparr>)) ''u1'' False) =
     Some (Rejected (UpgradeFailedInvalidTexture companion))"
proof -
  let ?q1 = "(exampleQuery ''lobby'' None ''v2'')
               \<lparr>q_characterTextureIds := StringArray [''body'', ''missing'']\<rparr>"
  let ?q2 = "(exampleQuery ''lobby'' None ''v2'')\<lparr>q_companionTextureId := Some ''missing''\<rparr>"
  have q1: "rq_query (exampleRequest ?q1) = Some ?q1" by (simp add: exampleRequest_def)
  have q2: "rq_query (exampleRequest ?q2) = Some ?q2" by (simp add: exampleRequest_def)
  have r1: "reachesLookup exampleEnv ?q1 None"
    by (simp add: reachesLookup_def exampleQuery_def exampleEnv_def verifyOptionalToken_def)
  have r2: "reachesLookup exampleEnv ?q2 None"
    by (simp add: reachesLookup_def exampleQuery_def exampleEnv_def verifyOptionalToken_def)
  have l1: "lookupMemberData exampleEnv ?q1 (rq_IPAddress (exampleRequest ?q1))
              (rq_locale (exampleRequest ?q1)) None =
            Inr (exampleMember [''body'', ''missing''] None)"
    by (simp add: lookupMemberData_def exampleEnv_def exampleQuery_def)
  have l2: "lookupMemberData exampleEnv ?q2 (rq_IPAddress (exampleRequest ?q2))
              (rq_locale (exampleRequest ?q2)) None =
            Inr (exampleMember [''body'', ''hat''] (Some ''missing''))"
    by (simp add: lookupMemberData_def exampleEnv_def exampleQuery_def)
  show ?thesis
    using texture_validation [OF q1 r1 l1, of "''u1''"] texture_validation [OF q2 r2 l2, of "''u1''"]
    by (simp add: exampleMember_def exampleQuery_def)
qed

subsection \<open>Chat credentials\<close>

lemma upgrade_catch_not_accepted:
  "snd (upgrade_catch env q a e) \<noteq> Some (Accepted seed)"
  by (simp add: upgrade_catch_def)

lemma upgrade_afterLookup_accepted:
  assumes "snd (upgrade_afterLookup env q ip uuid ids uid lg a looked) = Inr (Some (Accepted seed))"
  shows "\<exists>userData. looked = Inr userData \<and>
           upgrade_withMemberData env q ip uuid ids uid lg a userData = Some (Accepted seed)"
  using assms
  by (auto simp: upgrade_afterLookup_def split: sum.splits thrown.splits option.splits if_splits)

lemma upgrade_try_accepted:
  assumes "snd (snd (upgrade_try env q ip locale uuid a cg)) = Inr (Some (Accepted seed))"
  shows "\<exists>td. reachesLookup env q td \<and>
           snd (upgrade_afterLookup env q ip uuid
                  (normalizeCharacterTextureIds (q_characterTextureIds q))
                  (userIdentifier_of td) (truthy (accessToken_of td)) (a \<or> cg)
                  (lookupMemberData env q ip locale td)) = Inr (Some (Accepted seed))"
  using assms
  by (auto simp: upgrade_try_def reachesLookup_def Let_def split: sum.splits if_splits)

lemma upgrade_from_accepted:
  assumes "rq_query req = Some q"
    and "snd (upgrade_from env req uuid a cg) = Some (Accepted seed)"
  shows "\<exists>td userData. reachesLookup env q td \<and>
           lookupMemberData env q (rq_IPAddress req) (rq_locale req) td = Inr userData \<and>
           upgrade_withMemberData env q (rq_IPAddress req) uuid
             (normalizeCharacterTextureIds (q_characterTextureIds q))
             (userIdentifier_of td) (truthy (accessToken_of td)) (a \<or> cg) userData =
             Some (Accepted seed)"
proof -
  obtain a' c r where t: "upgrade_try env q (rq_IPAddress req) (rq_locale req) uuid a cg = (a', c, r)"
    by (cases "upgrade_try env q (rq_IPAddress req) (rq_locale req) uuid a cg") auto
  have "r = Inr (Some (Accepted seed))"
  proof (cases r)
    case (Inl e)
    then show ?thesis
      using assms t upgrade_catch_not_accepted [of env q a' e seed]
      by (simp add: upgrade_from_def split: prod.splits)
  next
    case (Inr called)
    then show ?thesis
      using assms t by (simp add: upgrade_from_def)
  qed
  then have "snd (snd (upgrade_try env q (rq_IPAddress req) (rq_locale req) uuid a cg)) =
               Inr (Some (Accepted seed))"
    using t by simp
  from upgrade_try_accepted [OF this] obtain td where
    td: "reachesLookup env q td"
    "snd (upgrade_afterLookup env q (rq_IPAddress req) uuid
                  (normalizeCharacterTextureIds (q_characterTextureIds q))
                  (userIdentifier_of td) (truthy (accessToken_of td)) (a \<or> cg)
                  (lookupMemberData env q (rq_IPAddress req) (rq_locale req) td)) =
       Inr (Some (Accepted seed))"
    by blast
  from upgrade_afterLookup_accepted [OF td(2)] td(1) show ?thesis by blast
qed

lemma withMemberData_accepted_jabber:
  assumes "upgrade_withMemberData env q ip uuid ids uid lg a userData = Some (Accepted seed)"
  shows "u_jabberId seed = fst (jabberCredentials env uid uuid userData) \<and>
         u_userJid seed = fst (jabberCredentials env uid uuid userData) \<and>
         u_jabberPassword seed = snd (jabberCredentials env uid uuid userData)"
  using assms
  by (auto simp: upgrade_withMemberData_def responseData_of_def Let_def split: if_splits)

text \<open>
  Claim C9. Every accepted upgrade went through the lookup, which returned member data.
  If these hold no jabberId (absent or empty), the seed's jabberId is the one
  \<^verbatim>\<open>JID.create\<close> makes from the identifier of the user, the configured domain and
  the uuid drawn for this connection, and its password is \<^verbatim>\<open>Jwt.sign\<close> of that
  jabberId under \<^verbatim>\<open>EJABBERD_JWT_SECRET\<close> with \<^verbatim>\<open>expiresIn: "1d"\<close> when
  the secret is configured, and the string \<^verbatim>\<open>no_password_set\<close> when it is not.
  If the member data hold a jabberId, the seed's jabberId is that one followed by
  \<^verbatim>\<open>/\<close> and the uuid, and its password is the one of the member data, unchanged.
\<close>

theorem chat_credentials:
  assumes "rq_query req = Some q"
    and "snd (ioConnection_upgrade env req uuid clientGone) = Some (Accepted seed)"
  shows "\<exists>tokenData userData.
           reachesLookup env q tokenData \<and>
           lookupMemberData env q (rq_IPAddress req) (rq_locale req) tokenData = Inr userData \<and>
           u_userJid seed = u_jabberId seed \<and>
           (\<not> truthy (m_jabberId userData) \<longrightarrow>
              u_jabberId seed =
                JID_create env (userIdentifier_of tokenData) (EJABBERD_DOMAIN env) uuid \<and>
              (\<forall>secret. EJABBERD_JWT_SECRET env = Some secret \<and> secret \<noteq> [] \<longrightarrow>
                 u_jabberPassword seed =
                   Some (Jwt_sign env (u_jabberId seed) secret ''1d'' ''HS256'')) \<and>
              (\<not> truthy (EJABBERD_JWT_SECRET env) \<longrightarrow>
                 u_jabberPassword seed = Some ''no_password_set'')) \<and>
           (\<forall>jid. m_jabberId userData = Some jid \<and> jid \<noteq> [] \<longrightarrow>
              u_jabberId seed = jid @ ''/'' @ uuid \<and>
              u_jabberPassword seed = m_jabberPassword userData)"
proof -
  from upgrade_from_accepted [OF assms(1), of env uuid False clientGone seed] assms(2)
  obtain td userData where
    r: "reachesLookup env q td"
    and l: "lookupMemberData env q (rq_IPAddress req) (rq_locale req) td = Inr userData"
    and w: "upgrade_withMemberData env q (rq_IPAddress req) uuid
             (normalizeCharacterTextureIds (q_characterTextureIds q))
             (userIdentifier_of td) (truthy (accessToken_of td)) (False \<or> clientGone) userData =
             Some (Accepted seed)"
    unfolding ioConnection_upgrade_def by blast
  note j = withMemberData_accepted_jabber [OF w]
  have 1: "u_userJid seed = u_jabberId seed" using j by simp
  have 2: "\<not> truthy (m_jabberId userData) \<longrightarrow>
              u_jabberId seed =
                JID_create env (userIdentifier_of td) (EJABBERD_DOMAIN env) uuid \<and>
              (\<forall>secret. EJABBERD_JWT_SECRET env = Some secret \<and> secret \<noteq> [] \<longrightarrow>
                 u_jabberPassword seed =
                   Some (Jwt_sign env (u_jabberId seed) secret ''1d'' ''HS256'')) \<and>
              (\<not> truthy (EJABBERD_JWT_SECRET env) \<longrightarrow>
                 u_jabberPassword seed = Some ''no_password_set'')"
    using j
    by (cases "m_jabberId userData"; cases "EJABBERD_JWT_SECRET env")
       (simp_all add: jabberCredentials_def fabricatedCredentials_def Let_def)
  have 3: "\<forall>jid. m_jabberId userData = Some jid \<and> jid \<noteq> [] \<longrightarrow>
              u_jabberId seed = jid @ ''/'' @ uuid \<and>
              u_jabberPassword seed = m_jabberPassword userData"
    using j by (simp add: jabberCredentials_def)
  show ?thesis
    using r l 1 2 3 by blast
qed
theorem chat_credentials_witness:
  "snd (ioConnection_upgrade exampleEnv
          (exampleRequest (exampleQuery ''lobby'' (Some ''good'') ''v2'')) ''u1'' False) =
     Some (Accepted
       (responseData_of exampleEnv (exampleQuery ''lobby'' (Some ''good'') ''v2'') ''203.0.113.7''
          ''alice'' True (exampleMember [''body'', ''hat''] None)
          (''alice@chat.example/u1'', Some ''HS256:1d:alice@chat.example/u1''))) \<and>
   u_jabberId
     (responseData_of exampleEnv (exampleQuery ''lobby'' (Some ''good'') ''v2'') ''203.0.113.7''
        ''alice'' True (exampleMember [''body'', ''hat''] None)
        (''alice@chat.example/u1'', Some ''HS256:1d:alice@chat.example/u1'')) =
     ''alice@chat.example/u1'' \<and>
   u_jabberPassword
     (responseData_of exampleEnv (exampleQuery ''lobby'' (Some ''good'') ''v2'') ''203.0.113.7''
        ''alice'' True (exampleMember [''body'', ''hat''] None)
        (''alice@chat.example/u1'', Some ''HS256:1d:alice@chat.example/u1'')) =
     Some ''HS256:1d:alice@chat.example/u1''"
proof -
  let ?q = "exampleQuery ''lobby'' (Some ''good'') ''v2''"
  let ?seed = "responseData_of exampleEnv ?q ''203.0.113.7''
          ''alice'' True (exampleMember [''body'', ''hat''] None)
          (''alice@chat.example/u1'', Some ''HS256:1d:alice@chat.example/u1'')"
  have q: "rq_query (exampleRequest ?q) = Some ?q" by (simp add: exampleRequest_def)
  have u: "snd (ioConnection_upgrade exampleEnv (exampleRequest ?q) ''u1'' False) =
             Some (Accepted ?seed)"
    by (simp add: ioConnection_upgrade_def upgrade_from_def upgrade_try_def
          upgrade_afterLookup_def upgrade_withMemberData_def lookupMemberData_def
          verifyOptionalToken_def userIdentifier_of_def accessToken_of_def
          jabberCredentials_def fabricatedCredentials_def
          exampleRequest_def exampleQuery_def exampleEnv_def exampleMember_def Let_def)
  show ?thesis
    using chat_credentials [OF q u] u by (simp add: responseData_of_def)
qed

subsection \<open>A single character texture id\<close>

lemma responseData_of_ids:
  "responseData_of env (q\<lparr>q_characterTextureIds := v\<rparr>) ip uid lg userData jabber =
   responseData_of env q ip uid lg userData jabber"
  by (simp add: responseData_of_def)

lemma upgrade_withMemberData_ids:
  "upgrade_withMemberData env (q\<lparr>q_characterTextureIds := v\<rparr>) ip uuid ids uid lg a userData =
   upgrade_withMemberData env q ip uuid ids uid lg a userData"
  by (simp add: upgrade_withMemberData_def responseData_of_ids)

lemma upgrade_afterLookup_ids:
  "upgrade_afterLookup env (q\<lparr>q_characterTextureIds := v\<rparr>) ip uuid ids uid lg a looked =
   upgrade_afterLookup env q ip uuid ids uid lg a looked"
  by (simp add: upgrade_afterLookup_def upgrade_withMemberData_ids
           split: sum.splits thrown.splits option.splits)

lemma upgrade_catch_ids:
  "upgrade_catch env (q\<lparr>q_characterTextureIds := v\<rparr>) a e = upgrade_catch env q a e"
  by (simp add: upgrade_catch_def)

lemma upgrade_try_ids:
  "upgrade_try env (q\<lparr>q_characterTextureIds := OneString s\<rparr>) ip locale uuid a cg =
   upgrade_try env (q\<lparr>q_characterTextureIds := StringArray [s]\<rparr>) ip locale uuid a cg"
  by (simp add: upgrade_try_def upgrade_afterLookup_ids lookupMemberData_def Let_def
           split: sum.splits)

text \<open>
  Claim C10. A \<^verbatim>\<open>characterTextureIds\<close> that is the single string \<open>s\<close> is
  processed as the array holding \<open>s\<close> alone: both are normalised to that list, and
  the two requests, equal otherwise, give the same captures, the same call of
  \<^verbatim>\<open>res.upgrade\<close> and the same calls on \<^verbatim>\<open>open\<close>.
\<close>

theorem single_texture_id_as_array:
  "normalizeCharacterTextureIds (OneString s) = [s] \<and>
   normalizeCharacterTextureIds (StringArray [s]) = [s] \<and>
   ioConnection_upgrade env (req\<lparr>rq_query := Some (q\<lparr>q_characterTextureIds := OneString s\<rparr>)\<rparr>)
     uuid clientGone =
   ioConnection_upgrade env (req\<lparr>rq_query := Some (q\<lparr>q_characterTextureIds := StringArray [s]\<rparr>)\<rparr>)
     uuid clientGone \<and>
   connect env (req\<lparr>rq_query := Some (q\<lparr>q_characterTextureIds := OneString s\<rparr>)\<rparr>)
     uuid clientGone joinRoomThrows disc =
   connect env (req\<lparr>rq_query := Some (q\<lparr>q_characterTextureIds := StringArray [s]\<rparr>)\<rparr>)
     uuid clientGone joinRoomThrows disc"
  by (simp add: connect_def ioConnection_upgrade_def upgrade_from_def upgrade_try_ids
        upgrade_catch_ids)

theorem single_texture_id_as_array_witness:
  "ioConnection_upgrade exampleEnv
     (exampleRequest ((exampleQuery ''lobby'' None ''v2'')\<lparr>q_characterTextureIds := OneString ''body''\<rparr>))
     ''u1'' False =
   ioConnection_upgrade exampleEnv
     (exampleRequest ((exampleQuery ''lobby'' None ''v2'')\<lparr>q_characterTextureIds := StringArray [''body'']\<rparr>))
     ''u1'' False"
  using single_texture_id_as_array
          [where s = "''body''" and env = exampleEnv
             and req = "exampleRequest (exampleQuery ''lobby'' None ''v2'')"
             and q = "exampleQuery ''lobby'' None ''v2''"
             and uuid = "''u1''" and clientGone = False]
  by (simp add: exampleRequest_def)

end
